theory Spec2Isabelle
  imports Main "HOL-Library.AList" "HOL-Library.Char_ord" "HOL-Library.List_Lexorder"
begin

section \<open>The tic-tac-toe server (server.py) as state-passing functions\<close>

text \<open>
  The development embeds \<^verbatim>\<open>TicTacToeServer\<close> and \<^verbatim>\<open>Room\<close> of server.py.
  A socket is a connection identifier. A Python dict is an association list in
  insertion order (\<open>AList.update\<close> overwrites in place or appends, as a dict does).
  A \<^verbatim>\<open>sendall\<close> on a socket the server has closed raises OSError; on any other
  socket it appends the frame to the field \<open>sent\<close> of the server state (what the
  peer does with its end of the connection is not part of the server's state). An
  exception that no handler catches leaves the event loop of \<^verbatim>\<open>start\<close>: it is
  the value \<open>Inl e\<close>.
\<close>

subsection \<open>Python built-ins used by the server\<close>

type_synonym sock = nat

datatype error = ValueError | IndexError | KeyError | UnicodeDecodeError | OSError

definition LF :: char where
  "LF = CHR 0x0A"

definition is_space :: "char \<Rightarrow> bool" where
  \<comment> \<open>\<^verbatim>\<open>str.isspace\<close> on the ASCII range, which is what \<^verbatim>\<open>str.strip\<close> removes:
      TAB, LF, VT, FF, CR, FS, GS, RS, US, space\<close>
  "is_space c \<longleftrightarrow>
     c \<in> set [CHR 0x09, CHR 0x0A, CHR 0x0B, CHR 0x0C, CHR 0x0D,
               CHR 0x1C, CHR 0x1D, CHR 0x1E, CHR 0x1F, CHR 0x20]"

definition strip :: "string \<Rightarrow> string" where
  "strip s = rev (dropWhile is_space (rev (dropWhile is_space s)))"

fun split_colon :: "string \<Rightarrow> string list" where
  \<comment> \<open>\<^verbatim>\<open>s.split(":")\<close>: never empty, one more field than there are colons\<close>
  "split_colon [] = [[]]"
| "split_colon (c # cs) =
     (if c = CHR '':'' then [] # split_colon cs
      else (case split_colon cs of
              [] \<Rightarrow> [[c]]
            | f # fs \<Rightarrow> (c # f) # fs))"

definition is_digit :: "char \<Rightarrow> bool" where
  "is_digit c \<longleftrightarrow> c \<in> set ''0123456789''"

definition is_lower :: "char \<Rightarrow> bool" where
  "is_lower c \<longleftrightarrow> c \<in> set ''abcdefghijklmnopqrstuvwxyz''"

definition is_upper :: "char \<Rightarrow> bool" where
  "is_upper c \<longleftrightarrow> c \<in> set ''ABCDEFGHIJKLMNOPQRSTUVWXYZ''"

definition isalnum :: "char \<Rightarrow> bool" where
  "isalnum c \<longleftrightarrow> is_digit c \<or> is_lower c \<or> is_upper c"

definition upper :: "string \<Rightarrow> string" where
  \<comment> \<open>\<^verbatim>\<open>str.upper\<close> on ASCII: the lower-case letters change, nothing else does\<close>
  "upper s =
     map (\<lambda>c. case map_of (zip ''abcdefghijklmnopqrstuvwxyz'' ''ABCDEFGHIJKLMNOPQRSTUVWXYZ'') c of
                Some C \<Rightarrow> C
              | None \<Rightarrow> c) s"

definition digit_val :: "char \<Rightarrow> int" where
  "digit_val c = int (of_char c - (48::nat))"

fun py_digits :: "int \<Rightarrow> string \<Rightarrow> int option" where
  \<comment> \<open>the rest of a numeral after a digit: digits, each optionally preceded by one underscore\<close>
  "py_digits acc [] = Some acc"
| "py_digits acc [c] = (if is_digit c then Some (acc * 10 + digit_val c) else None)"
| "py_digits acc (c # d # cs) =
     (if is_digit c then py_digits (acc * 10 + digit_val c) (d # cs)
      else if c = CHR ''_'' \<and> is_digit d then py_digits acc (d # cs)
      else None)"

definition py_unsigned :: "string \<Rightarrow> int option" where
  "py_unsigned s =
     (case s of
        [] \<Rightarrow> None
      | c # cs \<Rightarrow> if is_digit c then py_digits (digit_val c) cs else None)"

definition is_int_space :: "char \<Rightarrow> bool" where
  \<comment> \<open>the white space \<^verbatim>\<open>int\<close> skips around a numeral: TAB, LF, VT, FF, CR, space
      (not FS, GS, RS, US)\<close>
  "is_int_space c \<longleftrightarrow>
     c \<in> set [CHR 0x09, CHR 0x0A, CHR 0x0B, CHR 0x0C, CHR 0x0D, CHR 0x20]"

definition max_str_digits :: nat where
  \<comment> \<open>the interpreter's default limit on the digits of a numeral\<close>
  "max_str_digits = 4300"

definition py_int :: "string \<Rightarrow> int option" where
  \<comment> \<open>\<^verbatim>\<open>int(s)\<close> on an ASCII string; \<open>None\<close> is ValueError: white space around,
      one optional sign, digits with single underscores between them, at most
      \<open>max_str_digits\<close> digits\<close>
  "py_int s =
     (case rev (dropWhile is_int_space (rev (dropWhile is_int_space s))) of
        [] \<Rightarrow> None
      | c # cs \<Rightarrow>
          if length (filter is_digit (c # cs)) > max_str_digits then None
          else if c = CHR ''-'' then map_option uminus (py_unsigned cs)
          else if c = CHR ''+'' then py_unsigned cs
          else py_unsigned (c # cs))"

definition py_setitem :: "'a list \<Rightarrow> int \<Rightarrow> 'a \<Rightarrow> error + 'a list" where
  \<comment> \<open>\<^verbatim>\<open>xs[i] = v\<close>: a negative index counts from the end, out of range raises\<close>
  "py_setitem xs i v =
     (let n = int (length xs); j = (if i < 0 then n + i else i)
      in if 0 \<le> j \<and> j < n then Inr (xs[nat j := v]) else Inl IndexError)"

definition py_getitem :: "'a list \<Rightarrow> nat \<Rightarrow> error + 'a" where
  "py_getitem xs i = (if i < length xs then Inr (xs ! i) else Inl IndexError)"

fun join :: "string \<Rightarrow> string list \<Rightarrow> string" where
  "join sep [] = []"
| "join sep [x] = x"
| "join sep (x # y # ys) = x @ sep @ join sep (y # ys)"

definition decode_ascii :: "string \<Rightarrow> string option" where
  \<comment> \<open>\<^verbatim>\<open>data.decode('ascii')\<close>: a byte above 127 raises UnicodeDecodeError\<close>
  "decode_ascii data = (if list_all (\<lambda>c. of_char c < (128::nat)) data then Some data else None)"

subsection \<open>State\<close>

record room =
  name :: string
  players :: "(sock \<times> string) list"
  viewers :: "sock list"
  board :: "char list"
  current_turn :: "sock option"
  finished :: bool
  last_move_index :: "nat option"

record server =
  user_db :: "(string \<times> string) list"
  authenticated_users :: "(sock \<times> string) list"
  rooms :: "(string \<times> room) list"
  sent :: "(sock \<times> string) list"
  closed_socks :: "sock list"

text \<open>
  bcrypt is a library outside the repository: the handlers take its two functions as a
  parameter. The salt \<^verbatim>\<open>gensalt\<close> draws is not modelled; no statement below depends
  on the hash that registration stores.
\<close>

record bcrypt =
  checkpw :: "string \<Rightarrow> string \<Rightarrow> bool"
  hashpw :: "string \<Rightarrow> string"

definition sendall :: "sock \<Rightarrow> string \<Rightarrow> server \<Rightarrow> error + server" where
  \<comment> \<open>\<open>closed_socks\<close> holds the sockets \<^verbatim>\<open>handle_client_disconnect\<close> has closed\<close>
  "sendall c message srv =
     (if c \<in> set (closed_socks srv) then Inl OSError
      else Inr (srv\<lparr>sent := sent srv @ [(c, message)]\<rparr>))"

fun send_each :: "sock list \<Rightarrow> string \<Rightarrow> server \<Rightarrow> error + server" where
  \<comment> \<open>\<^verbatim>\<open>for sock in socks: sock.sendall(message)\<close>\<close>
  "send_each [] message srv = Inr srv"
| "send_each (c # cs) message srv =
     (case sendall c message srv of
        Inl e \<Rightarrow> Inl e
      | Inr srv1 \<Rightarrow> send_each cs message srv1)"

subsection \<open>class Room\<close>

definition Room :: "string \<Rightarrow> room" where
  \<comment> \<open>the board \<^verbatim>\<open>['0'] * 9\<close> written out\<close>
  "Room nm = \<lparr>name = nm, players = [], viewers = [], board = ''000000000'',
              current_turn = None, finished = False, last_move_index = None\<rparr>"

definition add_player :: "room \<Rightarrow> sock \<Rightarrow> string \<Rightarrow> room" where
  "add_player self c username =
     (if length (players self) < 2
      then self\<lparr>players := AList.update c username (players self)\<rparr>
      else self)"

definition is_full :: "room \<Rightarrow> bool" where
  "is_full self \<longleftrightarrow> length (players self) = 2"

definition has_player :: "room \<Rightarrow> sock \<Rightarrow> bool" where
  "has_player self c \<longleftrightarrow> c \<in> set (map fst (players self))"

definition add_viewer :: "room \<Rightarrow> sock \<Rightarrow> room" where
  "add_viewer self c = self\<lparr>viewers := viewers self @ [c]\<rparr>"

definition recipients :: "room \<Rightarrow> sock list" where
  \<comment> \<open>the order of the two loops every broadcast of the room runs: the keys of the
      player dict, then the viewer list\<close>
  "recipients self = map fst (players self) @ viewers self"

definition start_game :: "room \<Rightarrow> server \<Rightarrow> error + room \<times> server" where
  "start_game self srv =
     (if is_full self then
        (case players self of
           [(c1, player1), (c2, player2)] \<Rightarrow>
             (let message = ''BEGIN:'' @ player1 @ '':'' @ player2 @ [LF]
              in case send_each (recipients self) message srv of
                   Inl e \<Rightarrow> Inl e
                 | Inr srv1 \<Rightarrow> Inr (self\<lparr>current_turn := Some c1\<rparr>, srv1))
         | _ \<Rightarrow> Inr (self, srv))
      else Inr (self, srv))"

definition get_opposing_player :: "room \<Rightarrow> error + sock" where
  \<comment> \<open>\<^verbatim>\<open>[sock for sock in self.players if sock != self.current_turn][0]\<close>\<close>
  "get_opposing_player self =
     (case filter (\<lambda>c. Some c \<noteq> current_turn self) (map fst (players self)) of
        [] \<Rightarrow> Inl IndexError
      | c # _ \<Rightarrow> Inr c)"

definition player_name :: "room \<Rightarrow> sock option \<Rightarrow> error + string" where
  \<comment> \<open>\<^verbatim>\<open>self.players[key]\<close>, where the key may be \<^verbatim>\<open>None\<close>\<close>
  "player_name self key =
     (case key of
        None \<Rightarrow> Inl KeyError
      | Some c \<Rightarrow> (case map_of (players self) c of None \<Rightarrow> Inl KeyError | Some u \<Rightarrow> Inr u))"

definition broadcast_board_status :: "room \<Rightarrow> server \<Rightarrow> error + server" where
  "broadcast_board_status self srv =
     (let message = ''BOARDSTATUS:'' @ board self @ [LF]
      in case send_each (recipients self) message srv of
           Inl e \<Rightarrow> Inl e
         | Inr srv1 \<Rightarrow>
             (case player_name self (current_turn self) of
                Inl e \<Rightarrow> Inl e
              | Inr current_player \<Rightarrow>
                  (case get_opposing_player self of
                     Inl e \<Rightarrow> Inl e
                   | Inr opp \<Rightarrow>
                       (case player_name self (Some opp) of
                          Inl e \<Rightarrow> Inl e
                        | Inr next_player \<Rightarrow> Inr srv1))))"

definition cleanup_room :: "room \<Rightarrow> server \<Rightarrow> room \<times> server" where
  "cleanup_room self srv =
     (self\<lparr>players := [], viewers := []\<rparr>,
      if name self \<in> set (map fst (rooms srv))
      then srv\<lparr>rooms := AList.delete (name self) (rooms srv)\<rparr>
      else srv)"

definition game_end_message :: "char list \<Rightarrow> string option \<Rightarrow> bool \<Rightarrow> string" where
  \<comment> \<open>the three branches of \<^verbatim>\<open>broadcast_game_end\<close>; \<^verbatim>\<open>elif winner\<close> is Python
      truthiness: \<^verbatim>\<open>None\<close> and the empty string both take the last branch\<close>
  "game_end_message board_status winner forfeit =
     (if forfeit then
        ''GAMEEND:'' @ board_status @ '':2:'' @ (case winner of None \<Rightarrow> ''None'' | Some w \<Rightarrow> w) @ [LF]
      else
        (case winner of
           None \<Rightarrow> ''GAMEEND:'' @ board_status @ '':1'' @ [LF]
         | Some w \<Rightarrow>
             if w \<noteq> [] then ''GAMEEND:'' @ board_status @ '':0:'' @ w @ [LF]
             else ''GAMEEND:'' @ board_status @ '':1'' @ [LF]))"

definition broadcast_game_end ::
  "room \<Rightarrow> server \<Rightarrow> string option \<Rightarrow> bool \<Rightarrow> error + room \<times> server" where
  "broadcast_game_end self srv winner forfeit =
     (let message = game_end_message (board self) winner forfeit
      in case send_each (recipients self) message srv of
           Inl e \<Rightarrow> Inl e
         | Inr srv1 \<Rightarrow> Inr (cleanup_room (self\<lparr>finished := True\<rparr>) srv1))"

definition forfeit_game :: "room \<Rightarrow> server \<Rightarrow> sock \<Rightarrow> error + room \<times> server" where
  "forfeit_game self srv c =
     (if finished self then
        (case sendall c (''GAMEEND'' @ [LF]) srv of
           Inl e \<Rightarrow> Inl e
         | Inr srv1 \<Rightarrow> Inr (self, srv1))
      else
        (case get_opposing_player self of
           Inl e \<Rightarrow> Inl e
         | Inr winner_sock \<Rightarrow>
             (case player_name self (Some winner_sock) of
                Inl e \<Rightarrow> Inl e
              | Inr winner \<Rightarrow>
                  (case broadcast_game_end self srv (Some winner) True of
                     Inl e \<Rightarrow> Inl e
                   | Inr (self1, srv1) \<Rightarrow> Inr (self1\<lparr>finished := True\<rparr>, srv1)))))"

definition win_positions :: "nat list list" where
  "win_positions = [[0, 1, 2], [3, 4, 5], [6, 7, 8],
                    [0, 3, 6], [1, 4, 7], [2, 5, 8],
                    [0, 4, 8], [2, 4, 6]]"

definition check_winner :: "room \<Rightarrow> char \<Rightarrow> bool" where
  \<comment> \<open>the board has nine cells from the constructor on, so \<open>!\<close> is in range\<close>
  "check_winner self marker \<longleftrightarrow>
     list_ex (\<lambda>positions. list_all (\<lambda>i. board self ! i = marker) positions) win_positions"

definition place_marker :: "room \<Rightarrow> server \<Rightarrow> sock \<Rightarrow> string list \<Rightarrow> error + room \<times> server" where
  "place_marker self srv c args =
     (if finished self then
        (case sendall c (''GAMEEND'' @ [LF]) srv of
           Inl e \<Rightarrow> Inl e
         | Inr srv1 \<Rightarrow> Inr (self, srv1))
      else if Some c \<noteq> current_turn self then
        (case broadcast_board_status self srv of
           Inl e \<Rightarrow> Inl e
         | Inr srv1 \<Rightarrow> Inr (self, srv1))
      else
        (case py_getitem args 0 of
           Inl e \<Rightarrow> Inl e
         | Inr a0 \<Rightarrow>
        (case py_int a0 of
           None \<Rightarrow> Inl ValueError
         | Some x \<Rightarrow>
        (case py_getitem args 1 of
           Inl e \<Rightarrow> Inl e
         | Inr a1 \<Rightarrow>
        (case py_int a1 of
           None \<Rightarrow> Inl ValueError
         | Some y \<Rightarrow>
        (let index = y * 3 + x in
        (case py_getitem (map fst (players self)) 0 of
           Inl e \<Rightarrow> Inl e
         | Inr first \<Rightarrow>
        (let marker = (if c = first then CHR ''1'' else CHR ''2'') in
        (case py_setitem (board self) index marker of
           Inl e \<Rightarrow> Inl e
         | Inr b \<Rightarrow>
        (let self1 = self\<lparr>board := b\<rparr> in
         if check_winner self1 marker then
           (case player_name self1 (Some c) of
              Inl e \<Rightarrow> Inl e
            | Inr winner \<Rightarrow>
                (case broadcast_game_end self1 srv (Some winner) False of
                   Inl e \<Rightarrow> Inl e
                 | Inr (self2, srv2) \<Rightarrow> Inr (self2\<lparr>finished := True\<rparr>, srv2)))
         else if CHR ''0'' \<notin> set (board self1) then
           (case broadcast_game_end self1 srv None False of
              Inl e \<Rightarrow> Inl e
            | Inr (self2, srv2) \<Rightarrow> Inr (self2\<lparr>finished := True\<rparr>, srv2))
         else
           (case broadcast_board_status self1 srv of
              Inl e \<Rightarrow> Inl e
            | Inr srv2 \<Rightarrow>
                (case get_opposing_player self1 of
                   Inl e \<Rightarrow> Inl e
                 | Inr opp \<Rightarrow> Inr (self1\<lparr>current_turn := Some opp\<rparr>, srv2)))))))))))))"

subsection \<open>class TicTacToeServer\<close>

definition write_back :: "string \<Rightarrow> room \<Rightarrow> server \<Rightarrow> server" where
  \<comment> \<open>The directory holds a reference to the room object: after a method has mutated
      the object, the entry under its key, if still there, shows the mutated object.\<close>
  "write_back key self srv =
     srv\<lparr>rooms := map (\<lambda>(k, r). if k = key then (k, self) else (k, r)) (rooms srv)\<rparr>"

definition handle_login :: "bcrypt \<Rightarrow> server \<Rightarrow> sock \<Rightarrow> string list \<Rightarrow> error + server" where
  "handle_login bc srv c args =
     (case args of
        [username, password] \<Rightarrow>
          (case find (\<lambda>u. fst u = username) (user_db srv) of
             Some user \<Rightarrow>
               if checkpw bc password (snd user)
               then sendall c (''LOGIN:ACKSTATUS:0'' @ [LF])
                      (srv\<lparr>authenticated_users := AList.update c username (authenticated_users srv)\<rparr>)
               else sendall c (''LOGIN:ACKSTATUS:2'' @ [LF]) srv
           | None \<Rightarrow> sendall c (''LOGIN:ACKSTATUS:1'' @ [LF]) srv)
      | _ \<Rightarrow> sendall c (''LOGIN:ACKSTATUS:3'' @ [LF]) srv)"

definition handle_register :: "bcrypt \<Rightarrow> server \<Rightarrow> sock \<Rightarrow> string list \<Rightarrow> error + server" where
  "handle_register bc srv c args =
     (case args of
        [username, password] \<Rightarrow>
          if list_ex (\<lambda>u. fst u = username) (user_db srv)
          then sendall c (''REGISTER:ACKSTATUS:1'' @ [LF]) srv
          else sendall c (''REGISTER:ACKSTATUS:0'' @ [LF])
                 (srv\<lparr>user_db := user_db srv @ [(username, hashpw bc password)]\<rparr>)
      | _ \<Rightarrow> sendall c (''REGISTER:ACKSTATUS:2'' @ [LF]) srv)"

definition room_list :: "server \<Rightarrow> string \<Rightarrow> string list" where
  "room_list srv mode =
     map name (filter (\<lambda>r. (mode = ''PLAYER'' \<and> \<not> is_full r) \<or> mode = ''VIEWER'')
                 (map snd (rooms srv)))"

definition handle_roomlist :: "server \<Rightarrow> sock \<Rightarrow> string list \<Rightarrow> error + server" where
  "handle_roomlist srv c args =
     (if c \<notin> set (map fst (authenticated_users srv)) then sendall c (''BADAUTH'' @ [LF]) srv
      else
        (case args of
           [a] \<Rightarrow>
             if upper a \<notin> set [''PLAYER'', ''VIEWER'']
             then sendall c (''ROOMLIST:ACKSTATUS:1'' @ [LF]) srv
             else
               (let mode = upper a;
                    room_list_str = join '','' (sort (room_list srv mode))
                in sendall c (''ROOMLIST:ACKSTATUS:0:'' @ room_list_str @ [LF]) srv)
         | _ \<Rightarrow> sendall c (''ROOMLIST:ACKSTATUS:1'' @ [LF]) srv))"

definition handle_create_room :: "server \<Rightarrow> sock \<Rightarrow> string list \<Rightarrow> error + server" where
  "handle_create_room srv c args =
     (case map_of (authenticated_users srv) c of
        None \<Rightarrow> sendall c (''BADAUTH'' @ [LF]) srv
      | Some username \<Rightarrow>
          (case args of
             [room_name] \<Rightarrow>
               if \<not> list_all (\<lambda>ch. isalnum ch \<or> ch \<in> set ''-_ '') room_name
               then sendall c (''CREATE:ACKSTATUS:1'' @ [LF]) srv
               else if room_name \<in> set (map fst (rooms srv))
               then sendall c (''CREATE:ACKSTATUS:2'' @ [LF]) srv
               else if length (rooms srv) \<ge> 256
               then sendall c (''CREATE:ACKSTATUS:3'' @ [LF]) srv
               else
                 (let new_room = add_player (Room room_name) c username
                  in sendall c (''CREATE:ACKSTATUS:0'' @ [LF])
                       (srv\<lparr>rooms := AList.update room_name new_room (rooms srv)\<rparr>))
           | _ \<Rightarrow> sendall c (''CREATE:ACKSTATUS:4'' @ [LF]) srv))"

definition handle_join_room :: "server \<Rightarrow> sock \<Rightarrow> string list \<Rightarrow> error + server" where
  "handle_join_room srv c args =
     (case map_of (authenticated_users srv) c of
        None \<Rightarrow> sendall c (''BADAUTH'' @ [LF]) srv
      | Some username \<Rightarrow>
          (case args of
             [room_name, mode] \<Rightarrow>
               if upper mode \<notin> set [''PLAYER'', ''VIEWER'']
               then sendall c (''JOIN:ACKSTATUS:3'' @ [LF]) srv
               else
                 (case map_of (rooms srv) room_name of
                    None \<Rightarrow> sendall c (''JOIN:ACKSTATUS:1'' @ [LF]) srv
                  | Some room \<Rightarrow>
                      if upper mode = ''PLAYER'' then
                        (if is_full room then sendall c (''JOIN:ACKSTATUS:2'' @ [LF]) srv
                         else
                           (case sendall c (''JOIN:ACKSTATUS:0'' @ [LF]) srv of
                              Inl e \<Rightarrow> Inl e
                            | Inr srv1 \<Rightarrow>
                                (let room1 = add_player room c username
                                 in if is_full room1
                                    then (case start_game room1 srv1 of
                                            Inl e \<Rightarrow> Inl e
                                          | Inr (room2, srv2) \<Rightarrow>
                                              Inr (write_back room_name room2 srv2))
                                    else Inr (write_back room_name room1 srv1))))
                      else
                        (case sendall c (''JOIN:ACKSTATUS:0'' @ [LF]) srv of
                           Inl e \<Rightarrow> Inl e
                         | Inr srv1 \<Rightarrow>
                             (let room1 = add_viewer room c
                              in if is_full room1 then
                                   (case player_name room1 (current_turn room1) of
                                      Inl e \<Rightarrow> Inl e
                                    | Inr current_turn_user \<Rightarrow>
                                        (case get_opposing_player room1 of
                                           Inl e \<Rightarrow> Inl e
                                         | Inr opp \<Rightarrow>
                                             (case player_name room1 (Some opp) of
                                                Inl e \<Rightarrow> Inl e
                                              | Inr opposing_user \<Rightarrow>
                                                  (case sendall c (''INPROGRESS:'' @ current_turn_user
                                                                    @ '':'' @ opposing_user @ [LF]) srv1 of
                                                     Inl e \<Rightarrow> Inl e
                                                   | Inr srv2 \<Rightarrow>
                                                       Inr (write_back room_name room1 srv2)))))
                                 else Inr (write_back room_name room1 srv1))))
           | _ \<Rightarrow> sendall c (''JOIN:ACKSTATUS:3'' @ [LF]) srv))"

definition handle_place :: "server \<Rightarrow> sock \<Rightarrow> string list \<Rightarrow> error + server" where
  "handle_place srv c args =
     (if c \<notin> set (map fst (authenticated_users srv)) then sendall c (''BADAUTH'' @ [LF]) srv
      else
        (case find (\<lambda>(k, r). has_player r c) (rooms srv) of
           None \<Rightarrow> sendall c (''NOROOM'' @ [LF]) srv
         | Some (key, room) \<Rightarrow>
             (case place_marker room srv c args of
                Inl e \<Rightarrow> Inl e
              | Inr (room1, srv1) \<Rightarrow> Inr (write_back key room1 srv1))))"

definition handle_forfeit :: "server \<Rightarrow> sock \<Rightarrow> error + server" where
  "handle_forfeit srv c =
     (if c \<notin> set (map fst (authenticated_users srv)) then sendall c (''BADAUTH'' @ [LF]) srv
      else
        (case find (\<lambda>(k, r). has_player r c) (rooms srv) of
           None \<Rightarrow> sendall c (''NOROOM'' @ [LF]) srv
         | Some (key, room) \<Rightarrow>
             (case forfeit_game room srv c of
                Inl e \<Rightarrow> Inl e
              | Inr (room1, srv1) \<Rightarrow> Inr (write_back key room1 srv1))))"

definition is_valid_room_name :: "string \<Rightarrow> bool" where
  \<comment> \<open>defined by the server class; no handler calls it\<close>
  "is_valid_room_name room_name \<longleftrightarrow>
     \<not> (length room_name > 20 \<or> \<not> list_all (\<lambda>ch. isalnum ch \<or> ch \<in> set ''-_ '') room_name)"

definition handle_client_disconnect :: "server \<Rightarrow> sock \<Rightarrow> error + server" where
  \<comment> \<open>the scan looks at the players of the rooms only; \<^verbatim>\<open>unregister\<close> and
      \<^verbatim>\<open>close\<close> put the socket among the closed ones\<close>
  "handle_client_disconnect srv c =
     (case find (\<lambda>(k, r). c \<in> set (map fst (players r))) (rooms srv) of
        None \<Rightarrow> Inr (srv\<lparr>closed_socks := closed_socks srv @ [c]\<rparr>)
      | Some (key, room) \<Rightarrow>
          (case forfeit_game room srv c of
             Inl e \<Rightarrow> Inl e
           | Inr (room1, srv1) \<Rightarrow>
               Inr ((write_back key room1 srv1)\<lparr>closed_socks := closed_socks srv1 @ [c]\<rparr>)))"

definition decode :: "string \<Rightarrow> string list" where
  \<comment> \<open>\<^verbatim>\<open>command = request.strip().split(":")\<close>\<close>
  "decode request = split_colon (strip request)"

definition route :: "bcrypt \<Rightarrow> server \<Rightarrow> sock \<Rightarrow> string list \<Rightarrow> error + server" where
  \<comment> \<open>the \<^verbatim>\<open>if\<close>/\<^verbatim>\<open>elif\<close> chain of \<^verbatim>\<open>process_request\<close> on \<^verbatim>\<open>command[0]\<close>\<close>
  "route bc srv c command =
     (let keyword = hd command; args = tl command
      in if keyword = ''LOGIN'' then handle_login bc srv c args
         else if keyword = ''REGISTER'' then handle_register bc srv c args
         else if keyword = ''ROOMLIST'' then handle_roomlist srv c args
         else if keyword = ''CREATE'' then handle_create_room srv c args
         else if keyword = ''JOIN'' then handle_join_room srv c args
         else if keyword = ''PLACE'' then handle_place srv c args
         else if keyword = ''FORFEIT'' then handle_forfeit srv c
         else sendall c (''Unknown command'' @ [LF]) srv)"

definition process_request :: "bcrypt \<Rightarrow> server \<Rightarrow> sock \<Rightarrow> string \<Rightarrow> error + server" where
  "process_request bc srv c request = route bc srv c (decode request)"

datatype recv = Data string | ConnectionReset

definition handle_client :: "bcrypt \<Rightarrow> server \<Rightarrow> sock \<Rightarrow> recv \<Rightarrow> error + server" where
  \<comment> \<open>one call of the readiness callback: \<open>Data d\<close> is what \<^verbatim>\<open>recv(8192)\<close> returned,
      \<open>ConnectionReset\<close> is \<^verbatim>\<open>recv\<close> raising ConnectionResetError\<close>
  "handle_client bc srv c r =
     (case r of
        Data d \<Rightarrow>
          if d \<noteq> [] then
            (case decode_ascii d of
               None \<Rightarrow> Inl UnicodeDecodeError
             | Some request \<Rightarrow> process_request bc srv c request)
          else handle_client_disconnect srv c
      | ConnectionReset \<Rightarrow> handle_client_disconnect srv c)"

fun run :: "bcrypt \<Rightarrow> server \<Rightarrow> (sock \<times> recv) list \<Rightarrow> error + server" where
  \<comment> \<open>the loop of \<^verbatim>\<open>start\<close> over the readiness events of client sockets, in order;
      an uncaught exception ends it. The selector reports only registered sockets:
      an event for a socket that has been unregistered and closed does not occur.\<close>
  "run bc srv [] = Inr srv"
| "run bc srv ((c, r) # evs) =
     (if c \<in> set (closed_socks srv) then run bc srv evs
      else
        (case handle_client bc srv c r of
           Inl e \<Rightarrow> Inl e
         | Inr srv1 \<Rightarrow> run bc srv1 evs))"

section \<open>Notions of the specification, as predicates on the state\<close>

definition waiting :: "room \<Rightarrow> bool" where
  \<comment> \<open>Waiting: one player, nobody to move\<close>
  "waiting r \<longleftrightarrow>
     \<not> finished r \<and> length (board r) = 9 \<and>
     (case players r of
        [(c1, u1)] \<Rightarrow> current_turn r = None
      | _ \<Rightarrow> False)"

definition in_progress :: "room \<Rightarrow> bool" where
  \<comment> \<open>InProgress: two different players, one of them to move\<close>
  "in_progress r \<longleftrightarrow>
     \<not> finished r \<and> length (board r) = 9 \<and>
     (case players r of
        [(c1, u1), (c2, u2)] \<Rightarrow>
          c1 \<noteq> c2 \<and> (current_turn r = Some c1 \<or> current_turn r = Some c2)
      | _ \<Rightarrow> False)"

definition room_ok :: "string \<Rightarrow> room \<Rightarrow> bool" where
  \<comment> \<open>a room under the key \<open>k\<close>: it carries that name and is waiting or in progress,
      so it is not finished\<close>
  "room_ok k r \<longleftrightarrow> name r = k \<and> (waiting r \<or> in_progress r)"

definition dir_ok :: "server \<Rightarrow> bool" where
  \<comment> \<open>the room directory: a dict (distinct keys) whose rooms sit under their own name,
      none of them finished, each waiting or in progress\<close>
  "dir_ok srv \<longleftrightarrow>
     distinct (map fst (rooms srv)) \<and> list_all (\<lambda>(k, r). room_ok k r) (rooms srv)"

definition all_open :: "server \<Rightarrow> sock list \<Rightarrow> bool" where
  \<comment> \<open>none of the sockets has been closed by the server\<close>
  "all_open srv cs \<longleftrightarrow> list_all (\<lambda>d. d \<notin> set (closed_socks srv)) cs"

definition marker_of :: "room \<Rightarrow> sock \<Rightarrow> char" where
  \<comment> \<open>the marker \<^verbatim>\<open>place_marker\<close> computes for a connection\<close>
  "marker_of r c = (if c = fst (hd (players r)) then CHR ''1'' else CHR ''2'')"

definition opponent :: "room \<Rightarrow> sock \<Rightarrow> sock" where
  \<comment> \<open>the first player of the room that is not \<open>c\<close>\<close>
  "opponent r c = hd (filter (\<lambda>d. d \<noteq> c) (map fst (players r)))"

definition game_over :: "room \<Rightarrow> server \<Rightarrow> string \<Rightarrow> room \<times> server" where
  \<comment> \<open>the end of a match as one state change: the frame \<open>m\<close> goes once to every entry
      of the player dict, then once to every entry of the viewer list; the room is
      marked finished, leaves the directory and is emptied\<close>
  "game_over r srv m =
     (r\<lparr>players := [], viewers := [], finished := True\<rparr>,
      srv\<lparr>rooms := AList.delete (name r) (rooms srv),
          sent := sent srv @ map (\<lambda>d. (d, m)) (recipients r)\<rparr>)"


definition after_placement :: "room \<Rightarrow> server \<Rightarrow> sock \<Rightarrow> char list \<Rightarrow> room \<times> server" where
  \<comment> \<open>the three ways \<^verbatim>\<open>place_marker\<close> goes on once the mover's marker is on the board
      \<open>b\<close>: a win, a draw, or the turn passes\<close>
  "after_placement r srv c b =
     (let r1 = r\<lparr>board := b\<rparr> in
      if check_winner r1 (marker_of r c)
      then game_over r1 srv (game_end_message b (map_of (players r) c) False)
      else if CHR ''0'' \<notin> set b
      then game_over r1 srv (game_end_message b None False)
      else (r1\<lparr>current_turn := Some (opponent r c)\<rparr>,
            srv\<lparr>sent := sent srv @ map (\<lambda>d. (d, ''BOARDSTATUS:'' @ b @ [LF]))
                                     (recipients r)\<rparr>))"

definition spec_win_triples :: "nat list list" where
  \<comment> \<open>the specification's winning triples, from cell index = row * 3 + column:
      the three rows, the three columns, the two diagonals\<close>
  "spec_win_triples =
     map (\<lambda>row. map (\<lambda>col. row * 3 + col) [0, 1, 2]) [0, 1, 2]
     @ map (\<lambda>col. map (\<lambda>row. row * 3 + col) [0, 1, 2]) [0, 1, 2]
     @ [map (\<lambda>k. k * 3 + k) [0, 1, 2], map (\<lambda>k. k * 3 + (2 - k)) [0, 1, 2]]"

fun complete_commands :: "string \<Rightarrow> string \<Rightarrow> string list" where
  \<comment> \<open>the newline-terminated commands of a chunk, in order (\<open>acc\<close> holds the command
      being read, reversed); bytes after the last newline are not a complete command\<close>
  "complete_commands acc [] = []"
| "complete_commands acc (ch # rest) =
     (if ch = LF then rev acc # complete_commands [] rest
      else complete_commands (ch # acc) rest)"

fun process_each :: "bcrypt \<Rightarrow> server \<Rightarrow> sock \<Rightarrow> string list \<Rightarrow> error + server" where
  "process_each bc srv c [] = Inr srv"
| "process_each bc srv c (request # rest) =
     (case process_request bc srv c request of
        Inl e \<Rightarrow> Inl e
      | Inr srv1 \<Rightarrow> process_each bc srv1 c rest)"

definition spec_process_chunk :: "bcrypt \<Rightarrow> server \<Rightarrow> sock \<Rightarrow> string \<Rightarrow> error + server" where
  \<comment> \<open>The specification's reading of one chunk, written from its words: every complete
      command the chunk yields is decoded and processed on its own, in arrival order.\<close>
  "spec_process_chunk bc srv c chunk = process_each bc srv c (complete_commands [] chunk)"

section \<open>Concrete states used to exercise the theorems\<close>

definition demo_bcrypt :: bcrypt where
  \<comment> \<open>a stand-in for the library: the stored hash of a password is the password after a mark\<close>
  "demo_bcrypt = \<lparr>checkpw = (\<lambda>password hashed. hashed = CHR ''#'' # password),
                   hashpw = (\<lambda>password. CHR ''#'' # password)\<rparr>"

definition init_server :: server where
  \<comment> \<open>\<^verbatim>\<open>__init__\<close> with an empty user database\<close>
  "init_server = \<lparr>user_db = [], authenticated_users = [], rooms = [], sent = [], closed_socks = []\<rparr>"

definition demo_users :: server where
  "demo_users = \<lparr>user_db = [(''ann'', ''#a1''), (''bob'', ''#b2'')],
                  authenticated_users = [(1, ''ann''), (2, ''bob'')],
                  rooms = [], sent = [], closed_socks = []\<rparr>"

definition demo_room :: room where
  "demo_room = \<lparr>name = ''Arena'', players = [(1, ''ann''), (2, ''bob'')], viewers = [3],
                 board = ''000000000'', current_turn = Some 1, finished = False,
                 last_move_index = None\<rparr>"

definition demo_match :: server where
  \<comment> \<open>ann (connection 1) has created Arena, cy (3) watches, bob (2) has joined: ann is to move\<close>
  "demo_match = \<lparr>user_db = [(''ann'', ''#a1''), (''bob'', ''#b2''), (''cy'', ''#c3'')],
                  authenticated_users = [(1, ''ann''), (2, ''bob''), (3, ''cy'')],
                  rooms = [(''Arena'', demo_room)], sent = [], closed_socks = []\<rparr>"

definition demo_lobby :: server where
  \<comment> \<open>the state before bob joins: ann waits in Arena, cy watches\<close>
  "demo_lobby = demo_match\<lparr>rooms := [(''Arena'', demo_room\<lparr>players := [(1, ''ann'')],
                                                          current_turn := None\<rparr>)]\<rparr>"

definition demo_endgame_room :: room where
  \<comment> \<open>ann holds cells 0 and 1, bob cells 3 and 4; ann is to move\<close>
  "demo_endgame_room = demo_room\<lparr>board := ''110220000''\<rparr>"

definition demo_endgame :: server where
  "demo_endgame = demo_match\<lparr>rooms := [(''Arena'', demo_endgame_room)]\<rparr>"

definition demo_db :: server where
  \<comment> \<open>ann and bob are registered, nobody has logged in\<close>
  "demo_db = \<lparr>user_db = [(''ann'', ''#a1''), (''bob'', ''#b2'')], authenticated_users = [],
               rooms = [], sent = [], closed_socks = []\<rparr>"

definition demo_arena :: room where
  \<comment> \<open>Arena right after bob has joined ann in it, with nobody watching\<close>
  "demo_arena = (Room ''Arena'')\<lparr>players := [(1, ''ann''), (2, ''bob'')], current_turn := Some 1\<rparr>"

definition demo_two_rooms :: server where
  \<comment> \<open>bob (connection 2) has created Lobby and waits there; then ann (1) has created
      Arena and bob has joined it: Arena is in progress, ann is to move\<close>
  "demo_two_rooms =
     \<lparr>user_db = [(''bob'', ''#b2''), (''ann'', ''#a1'')],
      authenticated_users = [(2, ''bob''), (1, ''ann'')],
      rooms = [(''Lobby'', (Room ''Lobby'')\<lparr>players := [(2, ''bob'')]\<rparr>),
               (''Arena'', demo_arena)],
      sent = [], closed_socks = []\<rparr>"

lemmas builtin_defs =
  LF_def is_space_def strip_def is_digit_def is_lower_def is_upper_def isalnum_def upper_def
  digit_val_def py_unsigned_def is_int_space_def max_str_digits_def py_int_def py_setitem_def
  py_getitem_def decode_ascii_def

lemmas room_defs =
  Room_def add_player_def is_full_def has_player_def add_viewer_def start_game_def
  get_opposing_player_def player_name_def broadcast_board_status_def cleanup_room_def
  game_end_message_def broadcast_game_end_def forfeit_game_def win_positions_def
  check_winner_def place_marker_def sendall_def recipients_def

lemmas server_defs =
  write_back_def handle_login_def handle_register_def room_list_def handle_roomlist_def
  handle_create_room_def handle_join_room_def handle_place_def handle_forfeit_def
  handle_client_disconnect_def decode_def route_def process_request_def handle_client_def

lemmas demo_defs = demo_bcrypt_def init_server_def demo_users_def demo_room_def demo_match_def
  demo_lobby_def demo_endgame_room_def demo_endgame_def demo_db_def demo_arena_def demo_two_rooms_def


section \<open>Basic facts\<close>

lemma sendall_open:
  "c \<notin> set (closed_socks srv) \<Longrightarrow> sendall c m srv = Inr (srv\<lparr>sent := sent srv @ [(c, m)]\<rparr>)"
  by (simp add: sendall_def)

lemma send_each_eq:
  "send_each cs m srv =
     (if all_open srv cs then Inr (srv\<lparr>sent := sent srv @ map (\<lambda>c. (c, m)) cs\<rparr>)
      else Inl OSError)"
proof (induction cs arbitrary: srv)
  case Nil
  show ?case by (simp add: all_open_def)
next
  case (Cons c cs)
  show ?case
  proof (cases "c \<in> set (closed_socks srv)")
    case True
    then show ?thesis by (simp add: sendall_def all_open_def)
  next
    case False
    have "all_open (srv\<lparr>sent := sent srv @ [(c, m)]\<rparr>) cs = all_open srv cs"
      by (simp add: all_open_def)
    with False show ?thesis
      by (simp add: sendall_def Cons.IH) (simp add: all_open_def)
  qed
qed

lemma send_each_open:
  "all_open srv cs \<Longrightarrow>
     send_each cs m srv = Inr (srv\<lparr>sent := sent srv @ map (\<lambda>c. (c, m)) cs\<rparr>)"
  by (simp add: send_each_eq)


lemma update_present_keys:
  "k \<in> set (map fst al) \<Longrightarrow> map fst (AList.update k v al) = map fst al"
  by (induction al) auto

section \<open>Session registry\<close>

text \<open>
  C10. A connection that is already authenticated sends LOGIN again, with credentials
  the user database accepts (the first entry of that username verifies the password):
  the server answers \<^verbatim>\<open>LOGIN:ACKSTATUS:0\<close>, sends nothing else, and the username
  stored for the connection becomes the new one, in place. No branch of
  \<^verbatim>\<open>handle_login\<close> looks at the existing entry, so the login is never refused for
  being a second one. This is the result on every socket the server has not closed,
  and the server reads commands from no other: on a closed socket, from which no
  command can come, the acknowledgement would raise OSError.
\<close>

theorem relogin_replaces_username:
  assumes auth: "map_of (authenticated_users srv) c = Some old"
    and user: "find (\<lambda>u. fst u = username) (user_db srv) = Some user"
    and pw: "checkpw bc password (snd user)"
  shows "route bc srv c [''LOGIN'', username, password] =
           (if c \<in> set (closed_socks srv) then Inl OSError
            else Inr (srv\<lparr>authenticated_users := AList.update c username (authenticated_users srv),
                          sent := sent srv @ [(c, ''LOGIN:ACKSTATUS:0'' @ [LF])]\<rparr>))
         \<and> map_of (AList.update c username (authenticated_users srv)) c = Some username
         \<and> map fst (AList.update c username (authenticated_users srv))
             = map fst (authenticated_users srv)"
proof -
  from auth have "c \<in> set (map fst (authenticated_users srv))"
    by (metis map_of_eq_None_iff option.distinct(1) set_map)
  then show ?thesis
    using user pw
    by (simp add: route_def handle_login_def sendall_def update_present_keys update_conv')
qed

theorem relogin_replaces_username_witness:
  "map_of (authenticated_users demo_users) 1 = Some ''ann''
   \<and> find (\<lambda>u. fst u = ''bob'') (user_db demo_users) = Some (''bob'', ''#b2'')
   \<and> checkpw demo_bcrypt ''b2'' ''#b2''
   \<and> 1 \<notin> set (closed_socks demo_users)
   \<and> route demo_bcrypt demo_users 1 [''LOGIN'', ''bob'', ''b2''] =
       Inr (demo_users\<lparr>authenticated_users := [(1, ''bob''), (2, ''bob'')],
                       sent := [(1, ''LOGIN:ACKSTATUS:0'' @ [LF])]\<rparr>)"
  using relogin_replaces_username [of demo_users 1 "''ann''" "''bob''" "(''bob'', ''#b2'')"
      demo_bcrypt "''b2''"]
  by (simp add: demo_users_def demo_bcrypt_def)

section \<open>Room methods on rooms in progress\<close>

lemma in_progress_players:
  assumes "in_progress r"
  obtains c1 u1 c2 u2 where "players r = [(c1, u1), (c2, u2)]" "c1 \<noteq> c2"
    "current_turn r = Some c1 \<or> current_turn r = Some c2" "\<not> finished r" "length (board r) = 9"
  using assms unfolding in_progress_def
  by (auto split: list.splits prod.splits)


lemma delete_absent: "k \<notin> set (map fst al) \<Longrightarrow> AList.delete k al = al"
  by (induction al) auto

lemma recipients_board [simp]: "recipients (r\<lparr>board := b\<rparr>) = recipients r"
  by (simp add: recipients_def)

lemma cleanup_room_eq:
  "cleanup_room r srv =
     (r\<lparr>players := [], viewers := []\<rparr>, srv\<lparr>rooms := AList.delete (name r) (rooms srv)\<rparr>)"
  by (simp add: cleanup_room_def delete_absent)

lemma broadcast_game_end_eq:
  "broadcast_game_end r srv w f =
     (if all_open srv (recipients r)
      then Inr (game_over r srv (game_end_message (board r) w f))
      else Inl OSError)"
  by (simp add: broadcast_game_end_def cleanup_room_eq game_over_def send_each_eq Let_def)




lemma py_setitem_in_range:
  "0 \<le> i \<Longrightarrow> i < int (length xs) \<Longrightarrow> py_setitem xs i v = Inr (xs[nat i := v])"
  by (simp add: py_setitem_def Let_def)

text \<open>
  \<^verbatim>\<open>place_marker\<close> for the player to move: the two coordinates are read and parsed,
  the cell is written, and, if no socket of the room is closed, the match goes on as
  \<open>after_placement\<close> says.
\<close>

lemma place_marker_turn_unfold:
  assumes ip: "in_progress r" and turn: "current_turn r = Some c"
  shows "place_marker r srv c args =
     (case py_getitem args 0 of
        Inl e \<Rightarrow> Inl e
      | Inr a0 \<Rightarrow>
     (case py_int a0 of
        None \<Rightarrow> Inl ValueError
      | Some x \<Rightarrow>
     (case py_getitem args 1 of
        Inl e \<Rightarrow> Inl e
      | Inr a1 \<Rightarrow>
     (case py_int a1 of
        None \<Rightarrow> Inl ValueError
      | Some y \<Rightarrow>
     (case py_setitem (board r) (y * 3 + x) (marker_of r c) of
        Inl e \<Rightarrow> Inl e
      | Inr b \<Rightarrow>
          if all_open srv (recipients r) then Inr (after_placement r srv c b)
          else Inl OSError)))))"
proof -
  from ip obtain c1 u1 c2 u2 where p: "players r = [(c1, u1), (c2, u2)]" "c1 \<noteq> c2"
    and t: "current_turn r = Some c1 \<or> current_turn r = Some c2"
    and nf: "\<not> finished r"
    by (rule in_progress_players)
  have first: "py_getitem (map fst (players r)) 0 = Inr c1"
    using p by (simp add: py_getitem_def)
  have rest: "\<And>b. (let self1 = r\<lparr>board := b\<rparr> in
         if check_winner self1 (marker_of r c) then
           (case player_name self1 (Some c) of
              Inl e \<Rightarrow> Inl e
            | Inr winner \<Rightarrow>
                (case broadcast_game_end self1 srv (Some winner) False of
                   Inl e \<Rightarrow> Inl e
                 | Inr (self2, srv2) \<Rightarrow> Inr (self2\<lparr>finished := True\<rparr>, srv2)))
         else if CHR ''0'' \<notin> set (board self1) then
           (case broadcast_game_end self1 srv None False of
              Inl e \<Rightarrow> Inl e
            | Inr (self2, srv2) \<Rightarrow> Inr (self2\<lparr>finished := True\<rparr>, srv2))
         else
           (case broadcast_board_status self1 srv of
              Inl e \<Rightarrow> Inl e
            | Inr srv2 \<Rightarrow>
                (case get_opposing_player self1 of
                   Inl e \<Rightarrow> Inl e
                 | Inr opp \<Rightarrow> Inr (self1\<lparr>current_turn := Some opp\<rparr>, srv2))))
        = (if all_open srv (recipients r) then Inr (after_placement r srv c b) else Inl OSError)"
  proof -
    fix b
    from t turn have "c = c1 \<or> c = c2" by auto
    then show "?thesis b"
    proof
      assume "c = c1"
      with p turn show ?thesis
        by (simp add: Let_def after_placement_def opponent_def broadcast_board_status_def
            player_name_def get_opposing_player_def broadcast_game_end_eq game_over_def
            send_each_eq)
    next
      assume "c = c2"
      with p turn show ?thesis
        by (simp add: Let_def after_placement_def opponent_def broadcast_board_status_def
            player_name_def get_opposing_player_def broadcast_game_end_eq game_over_def
            send_each_eq)
    qed
  qed
  have m: "(if c = c1 then CHR ''1'' else CHR ''2'') = marker_of r c"
    using p by (simp add: marker_of_def)
  show ?thesis
    unfolding place_marker_def
    using nf turn
    by (simp add: first m rest [unfolded Let_def] Let_def cong: sum.case_cong option.case_cong)
qed

lemma place_marker_turn:
  assumes ip: "in_progress r" and turn: "current_turn r = Some c"
    and args: "args = a0 # a1 # rest" and x: "py_int a0 = Some x" and y: "py_int a1 = Some y"
    and lo: "0 \<le> y * 3 + x" and hi: "y * 3 + x < 9"
    and live: "all_open srv (recipients r)"
  shows "place_marker r srv c args =
           Inr (after_placement r srv c ((board r)[nat (y * 3 + x) := marker_of r c]))"
proof -
  have "length (board r) = 9" using ip by (simp add: in_progress_def)
  then have "py_setitem (board r) (y * 3 + x) (marker_of r c)
               = Inr ((board r)[nat (y * 3 + x) := marker_of r c])"
    using lo hi by (simp add: py_setitem_in_range)
  then show ?thesis
    using args x y live by (simp add: place_marker_turn_unfold [OF ip turn] py_getitem_def)
qed

lemma place_marker_turn_closed:
  assumes ip: "in_progress r" and turn: "current_turn r = Some c"
    and args: "args = a0 # a1 # rest" and x: "py_int a0 = Some x" and y: "py_int a1 = Some y"
    and lo: "0 \<le> y * 3 + x" and hi: "y * 3 + x < 9"
    and closed: "\<not> all_open srv (recipients r)"
  shows "place_marker r srv c args = Inl OSError"
proof -
  have "length (board r) = 9" using ip by (simp add: in_progress_def)
  then have "py_setitem (board r) (y * 3 + x) (marker_of r c)
               = Inr ((board r)[nat (y * 3 + x) := marker_of r c])"
    using lo hi by (simp add: py_setitem_in_range)
  then show ?thesis
    using args x y closed by (simp add: place_marker_turn_unfold [OF ip turn] py_getitem_def)
qed




lemma opponent_in_progress:
  assumes "in_progress r" "current_turn r = Some c"
  shows "opponent r c \<noteq> c \<and> has_player r (opponent r c)"
proof -
  from assms(1) obtain c1 u1 c2 u2 where p: "players r = [(c1, u1), (c2, u2)]" "c1 \<noteq> c2"
    and t: "current_turn r = Some c1 \<or> current_turn r = Some c2"
    by (rule in_progress_players)
  with assms(2) show ?thesis
    by (auto simp add: opponent_def has_player_def)
qed



lemma place_marker_finishes:
  assumes "\<not> finished r" and "place_marker r srv c args = Inr (r', srv')" and "finished r'"
  shows "\<exists>w. (r', srv') = game_over (r\<lparr>board := board r'\<rparr>) srv (game_end_message (board r') w False)"
  using assms
  by (auto simp add: place_marker_def Let_def broadcast_game_end_eq game_over_def
      split: if_splits sum.splits option.splits)


lemma forfeit_game_in_progress:
  assumes ip: "in_progress r" and turn: "current_turn r = Some t"
  shows "forfeit_game r srv c =
           (if all_open srv (recipients r)
            then Inr (game_over r srv
                   (''GAMEEND:'' @ board r @ '':2:'' @ the (map_of (players r) (opponent r t)) @ [LF]))
            else Inl OSError)"
proof -
  from ip obtain c1 u1 c2 u2 where p: "players r = [(c1, u1), (c2, u2)]" "c1 \<noteq> c2"
    and t: "current_turn r = Some c1 \<or> current_turn r = Some c2"
    and nf: "\<not> finished r"
    by (rule in_progress_players)
  from t turn have "t = c1 \<or> t = c2" by auto
  then show ?thesis
    using p nf turn
    by (auto simp add: forfeit_game_def get_opposing_player_def player_name_def opponent_def
        broadcast_game_end_eq game_over_def game_end_message_def)
qed







section \<open>Handlers: the directory entry of a room\<close>








section \<open>The room directory over the run of the server\<close>



































lemma dir_ok_init: "dir_ok init_server"
  by (simp add: dir_ok_def init_server_def)




section \<open>Forfeit\<close>

text \<open>
  \<^verbatim>\<open>forfeit_game\<close> takes the winner from \<^verbatim>\<open>get_opposing_player\<close>, which looks at
  the turn and not at the connection that forfeits: in a room in progress the winner
  named is always the player who is not to move.
\<close>

lemma forfeit_names_player_not_to_move:
  assumes "in_progress r" and "current_turn r = Some t" and "all_open srv (recipients r)"
  shows "forfeit_game r srv c =
           Inr (game_over r srv
                  (''GAMEEND:'' @ board r @ '':2:'' @ the (map_of (players r) (opponent r t)) @ [LF]))
         \<and> opponent r t \<noteq> t"
  using forfeit_game_in_progress [OF assms(1,2), of srv c] opponent_in_progress [OF assms(1,2)]
    assms(3)
  by simp

text \<open>
  C1. The claim is that the player who did not forfeit wins, whoever is to move. In
  Arena ann (connection 1) is to move and bob (connection 2) forfeits, by the FORFEIT
  command and by closing the connection: both times the GAMEEND frame has the forfeit
  flag and the room leaves the directory, but the winner it names is bob, the player
  who forfeited.
\<close>

theorem forfeit_out_of_turn_names_forfeiter:
  "current_turn demo_room = Some 1
   \<and> map_of (players demo_room) 2 = Some ''bob''
   \<and> handle_client demo_bcrypt demo_match 2 (Data ''FORFEIT'') =
       Inr (demo_match\<lparr>rooms := [],
              sent := [(1, ''GAMEEND:000000000:2:bob'' @ [LF]),
                       (2, ''GAMEEND:000000000:2:bob'' @ [LF]),
                       (3, ''GAMEEND:000000000:2:bob'' @ [LF])]\<rparr>)
   \<and> handle_client demo_bcrypt demo_match 2 (Data []) =
       Inr (demo_match\<lparr>rooms := [],
              sent := [(1, ''GAMEEND:000000000:2:bob'' @ [LF]),
                       (2, ''GAMEEND:000000000:2:bob'' @ [LF]),
                       (3, ''GAMEEND:000000000:2:bob'' @ [LF])],
              closed_socks := [2]\<rparr>)"
  by (simp add: builtin_defs room_defs server_defs demo_defs Let_def)

section \<open>Win and draw\<close>

text \<open>
  The table of \<^verbatim>\<open>check_winner\<close> is the specification's: the three rows, the three
  columns and the two diagonals, eight triples, none twice. For a mover with a
  non-empty username the frame after a placement is the win frame with that name
  exactly when the mover's marker fills a triple; a full board with no triple gives
  the draw frame, whatever the name. The sockets of the players and viewers of the
  room are taken to be open.
\<close>

lemma win_positions_are_the_eight_triples:
  "win_positions = spec_win_triples \<and> length win_positions = 8 \<and> distinct win_positions"
  by (simp add: win_positions_def spec_win_triples_def)

lemma check_winner_iff_triple:
  "check_winner r m \<longleftrightarrow> (\<exists>t \<in> set spec_win_triples. \<forall>i \<in> set t. board r ! i = m)"
  using win_positions_are_the_eight_triples
  by (simp add: check_winner_def list_ex_iff list_all_iff)

lemma place_outcome_named_mover:
  assumes ip: "in_progress r" and turn: "current_turn r = Some c"
    and args: "args = a0 # a1 # rest" and x: "py_int a0 = Some x" and y: "py_int a1 = Some y"
    and lo: "0 \<le> y * 3 + x" and hi: "y * 3 + x < 9"
    and u: "map_of (players r) c = Some u" and named: "u \<noteq> []"
    and live: "all_open srv (recipients r)"
  shows "place_marker r srv c args =
     (let b = (board r)[nat (y * 3 + x) := marker_of r c]; r1 = r\<lparr>board := b\<rparr> in
      if check_winner r1 (marker_of r c)
      then Inr (game_over r1 srv (''GAMEEND:'' @ b @ '':0:'' @ u @ [LF]))
      else if CHR ''0'' \<notin> set b
      then Inr (game_over r1 srv (''GAMEEND:'' @ b @ '':1'' @ [LF]))
      else Inr (r1\<lparr>current_turn := Some (opponent r c)\<rparr>,
                srv\<lparr>sent := sent srv @ map (\<lambda>d. (d, ''BOARDSTATUS:'' @ b @ [LF]))
                                         (map fst (players r) @ viewers r)\<rparr>))"
  using u named
  by (simp add: place_marker_turn [OF ip turn args x y lo hi live] after_placement_def
      game_end_message_def recipients_def Let_def)

lemma full_board_without_triple_is_draw:
  assumes ip: "in_progress r" and turn: "current_turn r = Some c"
    and args: "args = a0 # a1 # rest" and x: "py_int a0 = Some x" and y: "py_int a1 = Some y"
    and lo: "0 \<le> y * 3 + x" and hi: "y * 3 + x < 9"
    and b: "b = (board r)[nat (y * 3 + x) := marker_of r c]"
    and full: "CHR ''0'' \<notin> set b" and no_triple: "\<not> check_winner (r\<lparr>board := b\<rparr>) (marker_of r c)"
    and live: "all_open srv (recipients r)"
  shows "place_marker r srv c args =
           Inr (game_over (r\<lparr>board := b\<rparr>) srv (''GAMEEND:'' @ b @ '':1'' @ [LF]))"
  using full no_triple
  by (simp add: place_marker_turn [OF ip turn args x y lo hi live] after_placement_def
      game_end_message_def Let_def b)

text \<open>
  The run of section 8 of the specification, with the moves in turn order: ann wins
  with the top row, both players get \<^verbatim>\<open>GAMEEND:111020002:0:ann\<close>, and the room
  list is empty afterwards.
\<close>

lemma scenario_arena:
  "run demo_bcrypt init_server
      [(1, Data ''REGISTER:ann:a1''), (1, Data ''LOGIN:ann:a1''), (1, Data ''CREATE:Arena''),
       (2, Data ''REGISTER:bob:b2''), (2, Data ''LOGIN:bob:b2''), (2, Data ''JOIN:Arena:PLAYER''),
       (1, Data ''PLACE:0:0''), (2, Data ''PLACE:1:1''), (1, Data ''PLACE:1:0''),
       (2, Data ''PLACE:2:2''), (1, Data ''PLACE:2:0''), (1, Data ''ROOMLIST:VIEWER'')] =
     Inr \<lparr>user_db = [(''ann'', ''#a1''), (''bob'', ''#b2'')],
          authenticated_users = [(1, ''ann''), (2, ''bob'')], rooms = [],
          sent =
            [(1, ''REGISTER:ACKSTATUS:0'' @ [LF]), (1, ''LOGIN:ACKSTATUS:0'' @ [LF]),
             (1, ''CREATE:ACKSTATUS:0'' @ [LF]), (2, ''REGISTER:ACKSTATUS:0'' @ [LF]),
             (2, ''LOGIN:ACKSTATUS:0'' @ [LF]), (2, ''JOIN:ACKSTATUS:0'' @ [LF]),
             (1, ''BEGIN:ann:bob'' @ [LF]), (2, ''BEGIN:ann:bob'' @ [LF]),
             (1, ''BOARDSTATUS:100000000'' @ [LF]), (2, ''BOARDSTATUS:100000000'' @ [LF]),
             (1, ''BOARDSTATUS:100020000'' @ [LF]), (2, ''BOARDSTATUS:100020000'' @ [LF]),
             (1, ''BOARDSTATUS:110020000'' @ [LF]), (2, ''BOARDSTATUS:110020000'' @ [LF]),
             (1, ''BOARDSTATUS:110020002'' @ [LF]), (2, ''BOARDSTATUS:110020002'' @ [LF]),
             (1, ''GAMEEND:111020002:0:ann'' @ [LF]), (2, ''GAMEEND:111020002:0:ann'' @ [LF]),
             (1, ''ROOMLIST:ACKSTATUS:0:'' @ [LF])],
          closed_socks = []\<rparr>"
  by (simp add: builtin_defs room_defs server_defs demo_defs Let_def)

text \<open>
  C2. The claim is that the match ends with a win naming the mover whenever the
  mover's marker fills a triple. \<^verbatim>\<open>broadcast_game_end\<close> chooses the frame by
  \<^verbatim>\<open>elif winner\<close>, which is false for an empty string as well as for \<^verbatim>\<open>None\<close>,
  and \<^verbatim>\<open>handle_register\<close> accepts an empty username. Connection 1 registers and
  logs in with the empty username, creates Arena, bob joins, and connection 1
  completes the top row: the board holds a triple of its marker, and the frame both
  players get is the draw frame \<^verbatim>\<open>GAMEEND:111220000:1\<close>.
\<close>

theorem win_by_empty_username_reported_as_draw:
  "check_winner (demo_room\<lparr>board := ''111220000''\<rparr>) (CHR ''1'')
   \<and> run demo_bcrypt init_server
      [(1, Data ''REGISTER::pw''), (1, Data ''LOGIN::pw''), (1, Data ''CREATE:Arena''),
       (2, Data ''REGISTER:bob:b2''), (2, Data ''LOGIN:bob:b2''), (2, Data ''JOIN:Arena:PLAYER''),
       (1, Data ''PLACE:0:0''), (2, Data ''PLACE:0:1''), (1, Data ''PLACE:1:0''),
       (2, Data ''PLACE:1:1''), (1, Data ''PLACE:2:0'')] =
     Inr \<lparr>user_db = [([], ''#pw''), (''bob'', ''#b2'')],
          authenticated_users = [(1, []), (2, ''bob'')], rooms = [],
          sent =
            [(1, ''REGISTER:ACKSTATUS:0'' @ [LF]), (1, ''LOGIN:ACKSTATUS:0'' @ [LF]),
             (1, ''CREATE:ACKSTATUS:0'' @ [LF]), (2, ''REGISTER:ACKSTATUS:0'' @ [LF]),
             (2, ''LOGIN:ACKSTATUS:0'' @ [LF]), (2, ''JOIN:ACKSTATUS:0'' @ [LF]),
             (1, ''BEGIN::bob'' @ [LF]), (2, ''BEGIN::bob'' @ [LF]),
             (1, ''BOARDSTATUS:100000000'' @ [LF]), (2, ''BOARDSTATUS:100000000'' @ [LF]),
             (1, ''BOARDSTATUS:100200000'' @ [LF]), (2, ''BOARDSTATUS:100200000'' @ [LF]),
             (1, ''BOARDSTATUS:110200000'' @ [LF]), (2, ''BOARDSTATUS:110200000'' @ [LF]),
             (1, ''BOARDSTATUS:110220000'' @ [LF]), (2, ''BOARDSTATUS:110220000'' @ [LF]),
             (1, ''GAMEEND:111220000:1'' @ [LF]), (2, ''GAMEEND:111220000:1'' @ [LF])],
          closed_socks = []\<rparr>"
  by (simp add: builtin_defs room_defs server_defs demo_defs Let_def)

section \<open>Placing a marker\<close>







section \<open>Starting a match\<close>




section \<open>The end of a match\<close>




section \<open>Fields of PLACE that are not coordinates\<close>

text \<open>
  C3. The claim is that a PLACE command with fields that are not numbers, or numbers
  outside 0..2, is answered or rejected before the board is written and never stops
  the server. \<^verbatim>\<open>handle_place\<close> hands the fields to \<^verbatim>\<open>place_marker\<close> as they are:
  when the player to move sends them, \<^verbatim>\<open>int\<close> raises ValueError on a field that is no
  number, a missing field or an index past the board raises IndexError, and none of
  them is caught; a column of 5 or of -1 with row 0 gives an index the board has, and
  the cell (index 5, index 8) is written.
\<close>

theorem place_invalid_coordinates_unchecked:
  "handle_client demo_bcrypt demo_match 1 (Data ''PLACE:a:b'') = Inl ValueError
   \<and> handle_client demo_bcrypt demo_match 1 (Data ''PLACE'') = Inl IndexError
   \<and> handle_client demo_bcrypt demo_match 1 (Data ''PLACE:3:3'') = Inl IndexError
   \<and> handle_client demo_bcrypt demo_match 1 (Data ''PLACE:5:0'') =
       Inr (demo_match\<lparr>rooms := [(''Arena'', demo_room\<lparr>board := ''000001000'',
                                                        current_turn := Some 2\<rparr>)],
              sent := [(1, ''BOARDSTATUS:000001000'' @ [LF]),
                       (2, ''BOARDSTATUS:000001000'' @ [LF]),
                       (3, ''BOARDSTATUS:000001000'' @ [LF])]\<rparr>)
   \<and> handle_client demo_bcrypt demo_match 1 (Data ''PLACE:-1:0'') =
       Inr (demo_match\<lparr>rooms := [(''Arena'', demo_room\<lparr>board := ''000000001'',
                                                        current_turn := Some 2\<rparr>)],
              sent := [(1, ''BOARDSTATUS:000000001'' @ [LF]),
                       (2, ''BOARDSTATUS:000000001'' @ [LF]),
                       (3, ''BOARDSTATUS:000000001'' @ [LF])]\<rparr>)"
  by (simp add: builtin_defs room_defs server_defs demo_defs Let_def)

section \<open>Room names\<close>

text \<open>
  A name with a character that is not alphanumeric, a dash, an underscore or a space
  is refused with \<^verbatim>\<open>CREATE:ACKSTATUS:1\<close> and the directory stays as it is.
\<close>

lemma create_bad_character_rejected:
  assumes "map_of (authenticated_users srv) c = Some u"
    and "\<not> list_all (\<lambda>ch. isalnum ch \<or> ch \<in> set ''-_ '') room_name"
    and "c \<notin> set (closed_socks srv)"
  shows "handle_create_room srv c [room_name] =
           Inr (srv\<lparr>sent := sent srv @ [(c, ''CREATE:ACKSTATUS:1'' @ [LF])]\<rparr>)"
  using assms by (simp add: handle_create_room_def sendall_def)

text \<open>
  C6. The claim is that a name longer than 20 characters is refused as well. The rule
  with the length is \<^verbatim>\<open>is_valid_room_name\<close>, which \<^verbatim>\<open>handle_create_room\<close> does
  not call: it tests the characters only. A name of 21 letters fails
  \<^verbatim>\<open>is_valid_room_name\<close>, and CREATE with it adds the room and answers
  \<^verbatim>\<open>CREATE:ACKSTATUS:0\<close>.
\<close>

theorem create_long_name_accepted:
  "length ''aaaaaaaaaaaaaaaaaaaaa'' = 21
   \<and> \<not> is_valid_room_name ''aaaaaaaaaaaaaaaaaaaaa''
   \<and> handle_client demo_bcrypt demo_users 1 (Data ''CREATE:aaaaaaaaaaaaaaaaaaaaa'') =
       Inr (demo_users\<lparr>rooms := [(''aaaaaaaaaaaaaaaaaaaaa'',
                                   (Room ''aaaaaaaaaaaaaaaaaaaaa'')\<lparr>players := [(1, ''ann'')]\<rparr>)],
              sent := [(1, ''CREATE:ACKSTATUS:0'' @ [LF])]\<rparr>)"
  by (simp add: builtin_defs room_defs server_defs demo_defs is_valid_room_name_def Let_def)

section \<open>Decoding a chunk\<close>

text \<open>
  \<^verbatim>\<open>process_request\<close> decodes the text of one \<^verbatim>\<open>recv\<close> as a whole: it is
  stripped at both ends and split at the colons, and nothing splits it at a newline.
\<close>

lemma split_colon_nonempty: "split_colon s \<noteq> []"
  by (induction s) (auto split: list.splits)

lemma split_colon_Cons:
  "c \<noteq> CHR '':'' \<Longrightarrow> split_colon (c # cs) = (c # hd (split_colon cs)) # tl (split_colon cs)"
  using split_colon_nonempty [of cs] by (cases "split_colon cs") simp_all

lemma split_colon_colon: "split_colon (CHR '':'' # cs) = [] # split_colon cs"
  by simp

lemma split_colon_append:
  "split_colon (xs @ ys) =
     butlast (split_colon xs) @ [last (split_colon xs) @ hd (split_colon ys)] @ tl (split_colon ys)"
proof (induction xs)
  case Nil
  show ?case using split_colon_nonempty [of ys] by simp
next
  case (Cons c xs)
  obtain f fs where s: "split_colon xs = f # fs"
    using split_colon_nonempty [of xs] by (cases "split_colon xs") auto
  show ?case
  proof (cases "c = CHR '':''")
    case True
    have "split_colon ((c # xs) @ ys) = [] # split_colon (xs @ ys)"
      using True by simp
    also have "\<dots> = [] # (butlast (f # fs) @ [last (f # fs) @ hd (split_colon ys)] @ tl (split_colon ys))"
      using Cons.IH s by simp
    also have "\<dots> = butlast ([] # f # fs) @ [last ([] # f # fs) @ hd (split_colon ys)] @ tl (split_colon ys)"
      by simp
    also have "[] # f # fs = split_colon (c # xs)"
      using True s by simp
    finally show ?thesis .
  next
    case False
    have "split_colon ((c # xs) @ ys) = (c # hd (split_colon (xs @ ys))) # tl (split_colon (xs @ ys))"
      using split_colon_Cons [OF False, of "xs @ ys"] by simp
    also have "split_colon (xs @ ys) = butlast (f # fs) @ [last (f # fs) @ hd (split_colon ys)] @ tl (split_colon ys)"
      using Cons.IH s by simp
    also have "(c # hd (butlast (f # fs) @ [last (f # fs) @ hd (split_colon ys)] @ tl (split_colon ys)))
                 # tl (butlast (f # fs) @ [last (f # fs) @ hd (split_colon ys)] @ tl (split_colon ys))
               = butlast ((c # f) # fs) @ [last ((c # f) # fs) @ hd (split_colon ys)] @ tl (split_colon ys)"
      by (cases fs) simp_all
    also have "(c # f) # fs = split_colon (c # xs)"
      using split_colon_Cons [OF False, of xs] s by simp
    finally show ?thesis .
  qed
qed

lemma is_space_LF: "is_space LF"
  by (simp add: is_space_def LF_def)

lemma strip_two_commands:
  assumes "l1 \<noteq> []" "\<not> is_space (hd l1)" "l2 \<noteq> []" "\<not> is_space (last l2)"
  shows "strip (l1 @ [LF] @ l2 @ [LF]) = l1 @ [LF] @ l2"
proof -
  obtain a l1' where l1: "l1 = a # l1'" using assms(1) by (cases l1) auto
  obtain z l2' where l2: "l2 = l2' @ [z]" using assms(3) by (cases l2 rule: rev_cases) auto
  have a: "\<not> is_space a" using assms(2) l1 by simp
  have z: "\<not> is_space z" using assms(4) l2 by simp
  have "dropWhile is_space (l1 @ [LF] @ l2 @ [LF]) = l1 @ [LF] @ l2 @ [LF]"
    using a by (simp add: l1)
  moreover have "rev (l1 @ [LF] @ l2 @ [LF]) = LF # z # rev l2' @ [LF] @ rev l1"
    by (simp add: l2)
  moreover have "dropWhile is_space (LF # z # rev l2' @ [LF] @ rev l1) = z # rev l2' @ [LF] @ rev l1"
    using z is_space_LF by simp
  moreover have "rev (z # rev l2' @ [LF] @ rev l1) = l1 @ [LF] @ l2"
    by (simp add: l2)
  ultimately show ?thesis
    by (simp only: strip_def)
qed


lemma decode_two_commands:
  assumes "l1 \<noteq> []" "\<not> is_space (hd l1)" "l2 \<noteq> []" "\<not> is_space (last l2)"
  shows "decode (l1 @ [LF] @ l2 @ [LF]) =
           butlast (split_colon l1)
           @ [last (split_colon l1) @ [LF] @ hd (split_colon l2)]
           @ tl (split_colon l2)"
proof -
  have "LF \<noteq> CHR '':''" by (simp add: LF_def)
  then have lf: "split_colon (LF # l2) = (LF # hd (split_colon l2)) # tl (split_colon l2)"
    by (rule split_colon_Cons)
  have "decode (l1 @ [LF] @ l2 @ [LF]) = split_colon (l1 @ (LF # l2))"
    using strip_two_commands [OF assms] by (simp add: decode_def)
  also have "\<dots> = butlast (split_colon l1)
                    @ [last (split_colon l1) @ hd (split_colon (LF # l2))]
                    @ tl (split_colon (LF # l2))"
    by (rule split_colon_append)
  finally show ?thesis
    by (simp add: lf del: split_colon.simps)
qed

lemma join_Cons_head: "join sep ((c # f) # fs) = c # join sep (f # fs)"
  by (cases fs) simp_all

lemma join_split_colon: "join '':'' (split_colon s) = s"
proof (induction s)
  case Nil
  show ?case by simp
next
  case (Cons c cs)
  obtain f fs where s: "split_colon cs = f # fs"
    using split_colon_nonempty [of cs] by (cases "split_colon cs") auto
  show ?case
  proof (cases "c = CHR '':''")
    case True
    then have "join '':'' (split_colon (c # cs)) = '':'' @ join '':'' (f # fs)"
      by (simp add: s)
    with Cons.IH s True show ?thesis by simp
  next
    case False
    then have "join '':'' (split_colon (c # cs)) = c # join '':'' (f # fs)"
      by (simp add: s join_Cons_head)
    with Cons.IH s show ?thesis by simp
  qed
qed

lemma length_split_colon: "length (split_colon s) = Suc (count_list s (CHR '':''))"
proof (induction s)
  case Nil
  show ?case by simp
next
  case (Cons c cs)
  obtain f fs where s: "split_colon cs = f # fs"
    using split_colon_nonempty [of cs] by (cases "split_colon cs") auto
  with Cons.IH show ?case by simp
qed

text \<open>
  C8, as the claim states it, fails. The chunk holds the two commands
  \<^verbatim>\<open>LOGIN:ann:a1\<close> and \<^verbatim>\<open>CREATE:Arena\<close>, each ended by a newline. Processed
  one after the other, as the claim says, ann is logged in and Arena is created. The
  server decodes the chunk into the one field list LOGIN, ann, a1\<open>\<newline>\<close>CREATE, Arena,
  answers \<^verbatim>\<open>LOGIN:ACKSTATUS:3\<close> for the three fields after the keyword, and neither
  logs ann in nor creates the room.
\<close>

theorem two_commands_in_one_chunk_counterexample:
  "complete_commands [] (''LOGIN:ann:a1'' @ [LF] @ ''CREATE:Arena'' @ [LF]) =
       [''LOGIN:ann:a1'', ''CREATE:Arena'']
   \<and> spec_process_chunk demo_bcrypt demo_db 1 (''LOGIN:ann:a1'' @ [LF] @ ''CREATE:Arena'' @ [LF]) =
       Inr (demo_db\<lparr>authenticated_users := [(1, ''ann'')],
                    rooms := [(''Arena'', (Room ''Arena'')\<lparr>players := [(1, ''ann'')]\<rparr>)],
                    sent := [(1, ''LOGIN:ACKSTATUS:0'' @ [LF]), (1, ''CREATE:ACKSTATUS:0'' @ [LF])]\<rparr>)
   \<and> process_request demo_bcrypt demo_db 1 (''LOGIN:ann:a1'' @ [LF] @ ''CREATE:Arena'' @ [LF]) =
       Inr (demo_db\<lparr>sent := [(1, ''LOGIN:ACKSTATUS:3'' @ [LF])]\<rparr>)
   \<and> process_request demo_bcrypt demo_db 1 (''LOGIN:ann:a1'' @ [LF] @ ''CREATE:Arena'' @ [LF])
       \<noteq> spec_process_chunk demo_bcrypt demo_db 1 (''LOGIN:ann:a1'' @ [LF] @ ''CREATE:Arena'' @ [LF])"
  by (simp add: builtin_defs room_defs server_defs demo_defs spec_process_chunk_def Let_def)

text \<open>
  C8, amended. The text of one read is decoded as a whole, whatever it holds:
  \<^verbatim>\<open>process_request\<close> dispatches once, on the field list it gets by stripping the
  text of white space at both ends and splitting it at every colon. The fields, joined
  by colons, give back the stripped text, and there is one field more than the stripped
  text has colons: a newline inside the text stays inside a field and separates
  nothing. In particular, let the chunk consist of two commands \<open>l1\<close> and \<open>l2\<close>, each
  ended by a newline, where \<open>l1\<close> is not empty and does not start with a white-space
  character and \<open>l2\<close> is not empty and does not end with one. Then the chunk is decoded
  into one field list: the fields of \<open>l1\<close> but the last, then one field made of the
  last field of \<open>l1\<close>, the newline and the first field (the keyword) of \<open>l2\<close>, then
  the remaining fields of \<open>l2\<close>. \<^verbatim>\<open>process_request\<close> dispatches once, on this list,
  and the list has one field less than the two commands have together.
\<close>

theorem chunk_is_one_command:
  "process_request bc srv c chunk = route bc srv c (decode chunk)
   \<and> join '':'' (decode chunk) = strip chunk
   \<and> length (decode chunk) = Suc (count_list (strip chunk) (CHR '':''))
   \<and> (l1 \<noteq> [] \<and> \<not> is_space (hd l1) \<and> l2 \<noteq> [] \<and> \<not> is_space (last l2)
      \<longrightarrow> decode (l1 @ [LF] @ l2 @ [LF]) =
            butlast (split_colon l1)
            @ [last (split_colon l1) @ [LF] @ hd (split_colon l2)]
            @ tl (split_colon l2)
        \<and> process_request bc srv c (l1 @ [LF] @ l2 @ [LF]) =
            route bc srv c
              (butlast (split_colon l1)
               @ [last (split_colon l1) @ [LF] @ hd (split_colon l2)]
               @ tl (split_colon l2))
        \<and> length (decode (l1 @ [LF] @ l2 @ [LF])) + 1
            = length (split_colon l1) + length (split_colon l2))"
proof -
  have one: "process_request bc srv c chunk = route bc srv c (decode chunk)"
    by (simp only: process_request_def)
  have joined: "join '':'' (decode chunk) = strip chunk"
    by (simp only: decode_def join_split_colon)
  have count: "length (decode chunk) = Suc (count_list (strip chunk) (CHR '':''))"
    by (simp only: decode_def length_split_colon)
  have two: "decode (l1 @ [LF] @ l2 @ [LF]) =
            butlast (split_colon l1)
            @ [last (split_colon l1) @ [LF] @ hd (split_colon l2)]
            @ tl (split_colon l2)
        \<and> process_request bc srv c (l1 @ [LF] @ l2 @ [LF]) =
            route bc srv c
              (butlast (split_colon l1)
               @ [last (split_colon l1) @ [LF] @ hd (split_colon l2)]
               @ tl (split_colon l2))
        \<and> length (decode (l1 @ [LF] @ l2 @ [LF])) + 1
            = length (split_colon l1) + length (split_colon l2)"
    if h: "l1 \<noteq> []" "\<not> is_space (hd l1)" "l2 \<noteq> []" "\<not> is_space (last l2)"
  proof -
    have ne: "split_colon l1 \<noteq> []" "split_colon l2 \<noteq> []"
      by (rule split_colon_nonempty)+
    have d: "decode (l1 @ [LF] @ l2 @ [LF]) =
             butlast (split_colon l1)
             @ [last (split_colon l1) @ [LF] @ hd (split_colon l2)]
             @ tl (split_colon l2)"
      using h by (rule decode_two_commands)
    have "process_request bc srv c (l1 @ [LF] @ l2 @ [LF]) =
             route bc srv c (decode (l1 @ [LF] @ l2 @ [LF]))"
      by (simp only: process_request_def)
    moreover have "length (decode (l1 @ [LF] @ l2 @ [LF])) + 1
             = length (split_colon l1) + length (split_colon l2)"
      using ne by (simp only: d) (cases "split_colon l1"; cases "split_colon l2"; simp)
    ultimately show ?thesis
      by (simp only: d simp_thms)
  qed
  show ?thesis
    apply (intro conjI impI)
    subgoal by (rule one)
    subgoal by (rule joined)
    subgoal by (rule count)
    subgoal using two by blast
    subgoal using two by blast
    subgoal using two by blast
    done
qed

theorem chunk_is_one_command_witness:
  "''LOGIN:ann:a1'' \<noteq> [] \<and> \<not> is_space (hd ''LOGIN:ann:a1'')
   \<and> ''CREATE:Arena'' \<noteq> [] \<and> \<not> is_space (last ''CREATE:Arena'')
   \<and> strip (''LOGIN:ann:a1'' @ [LF] @ ''CREATE:Arena'' @ [LF]) = ''LOGIN:ann:a1'' @ [LF] @ ''CREATE:Arena''
   \<and> decode (''LOGIN:ann:a1'' @ [LF] @ ''CREATE:Arena'' @ [LF]) =
       [''LOGIN'', ''ann'', ''a1'' @ [LF] @ ''CREATE'', ''Arena'']
   \<and> process_request demo_bcrypt demo_db 1 (''LOGIN:ann:a1'' @ [LF] @ ''CREATE:Arena'' @ [LF]) =
       Inr (demo_db\<lparr>sent := [(1, ''LOGIN:ACKSTATUS:3'' @ [LF])]\<rparr>)"
proof -
  have h1: "''LOGIN:ann:a1'' \<noteq> []" and h3: "''CREATE:Arena'' \<noteq> []" by simp_all
  have h2: "\<not> is_space (hd ''LOGIN:ann:a1'')" and h4: "\<not> is_space (last ''CREATE:Arena'')"
    by (simp_all add: is_space_def)
  have c0: "strip (''LOGIN:ann:a1'' @ [LF] @ ''CREATE:Arena'' @ [LF])
              = ''LOGIN:ann:a1'' @ [LF] @ ''CREATE:Arena''"
    by (simp add: builtin_defs)
  have c1: "decode (''LOGIN:ann:a1'' @ [LF] @ ''CREATE:Arena'' @ [LF]) =
       [''LOGIN'', ''ann'', ''a1'' @ [LF] @ ''CREATE'', ''Arena'']"
    by (simp add: builtin_defs decode_def)
  have c2: "process_request demo_bcrypt demo_db 1 (''LOGIN:ann:a1'' @ [LF] @ ''CREATE:Arena'' @ [LF]) =
       Inr (demo_db\<lparr>sent := [(1, ''LOGIN:ACKSTATUS:3'' @ [LF])]\<rparr>)"
    by (simp add: builtin_defs room_defs server_defs demo_defs Let_def)
  have t: "decode (''LOGIN:ann:a1'' @ [LF] @ ''CREATE:Arena'' @ [LF]) =
            butlast (split_colon ''LOGIN:ann:a1'')
            @ [last (split_colon ''LOGIN:ann:a1'') @ [LF] @ hd (split_colon ''CREATE:Arena'')]
            @ tl (split_colon ''CREATE:Arena'')"
    by (rule chunk_is_one_command
          [THEN conjunct2, THEN conjunct2, THEN conjunct2, rule_format, THEN conjunct1])
      (intro conjI h1 h2 h3 h4)
  show ?thesis
    using t by (intro conjI h1 h2 h3 h4 c0 c1 c2)
qed


end
